theory Spec2Isabelle
  imports Main "HOL-Library.Multiset"
begin

section \<open>Python values, exceptions and built-ins\<close>

text \<open>
  The script \<^verbatim>\<open>sonarqube_line_of_code_analysis.py\<close> catches no exception
  ("No exception handling, all exceptions are propagated to the user"). Every function
  that can raise returns \<open>error + 'a\<close>, with \<open>Inl\<close> for the exception.
  \<open>ValueError\<close> is raised by \<^verbatim>\<open>max([])\<close> and by \<^verbatim>\<open>int(s)\<close> on a
  malformed string, \<open>IndexError\<close> by \<^verbatim>\<open>measures[0]\<close> on an empty list, and
  \<open>ClientError\<close> stands for whatever the client library raises (transport,
  authentication, unknown project).
\<close>

datatype error = ValueError | IndexError | ClientError string

definition and_then :: "error + 'a \<Rightarrow> ('a \<Rightarrow> error + 'b) \<Rightarrow> error + 'b" where
  "and_then r f = (case r of Inl e \<Rightarrow> Inl e | Inr v \<Rightarrow> f v)"

text \<open>
  A measure value of a response is either an integer or a string (the server sends the
  metric as a decimal string); Python integers are unbounded.
\<close>

datatype pyval = PyInt int | PyStr string

text \<open>
  \<^verbatim>\<open>int(s)\<close> on a string: surrounding whitespace is stripped, one sign is allowed,
  then decimal digits follow, where single underscores may stand between digits.
  Characters are code points below 256. The whitespace that \<^verbatim>\<open>int\<close> strips is
  tab, line feed, vertical tab, form feed, carriage return and space (9 to 13, 32), and
  of the code points above 127 the two that are spaces, 133 and 160; the separators 28
  to 31, which \<^verbatim>\<open>str.isspace\<close> accepts, are not stripped, so \<^verbatim>\<open>int\<close>
  raises on the code point 28 followed by a digit. The model is of an interpreter whose limit on the
  number of digits of a conversion is switched off
  (\<^verbatim>\<open>sys.set_int_max_str_digits(0)\<close>, or a version that has none).
\<close>

definition py_isspace :: "char \<Rightarrow> bool" where
  "py_isspace c = ((of_char c :: nat) \<in> {9, 10, 11, 12, 13, 32, 133, 160})"

definition py_strip :: "string \<Rightarrow> string" where
  "py_strip s = rev (dropWhile py_isspace (rev (dropWhile py_isspace s)))"

definition digit_of :: "char \<Rightarrow> nat option" where
  "digit_of c = (let n = (of_char c :: nat) in if 48 \<le> n \<and> n \<le> 57 then Some (n - 48) else None)"

fun py_digits :: "nat \<Rightarrow> string \<Rightarrow> nat option" where
  "py_digits acc [] = Some acc"
| "py_digits acc [c] = (case digit_of c of None \<Rightarrow> None | Some v \<Rightarrow> Some (10 * acc + v))"
| "py_digits acc (c # d # cs) =
     (if c = CHR ''_''
      then (case digit_of d of None \<Rightarrow> None | Some v \<Rightarrow> py_digits (10 * acc + v) cs)
      else (case digit_of c of None \<Rightarrow> None | Some v \<Rightarrow> py_digits (10 * acc + v) (d # cs)))"

definition py_decimal :: "string \<Rightarrow> nat option" where
  "py_decimal s =
     (case s of [] \<Rightarrow> None
      | c # cs \<Rightarrow> (case digit_of c of None \<Rightarrow> None | Some v \<Rightarrow> py_digits v cs))"

definition py_int_of_str :: "string \<Rightarrow> error + int" where
  "py_int_of_str s =
     (case py_strip s of [] \<Rightarrow> Inl ValueError
      | c # cs \<Rightarrow>
          if c = CHR ''-'' then (case py_decimal cs of None \<Rightarrow> Inl ValueError | Some n \<Rightarrow> Inr (- int n))
          else if c = CHR ''+'' then (case py_decimal cs of None \<Rightarrow> Inl ValueError | Some n \<Rightarrow> Inr (int n))
          else (case py_decimal (c # cs) of None \<Rightarrow> Inl ValueError | Some n \<Rightarrow> Inr (int n)))"

fun py_int :: "pyval \<Rightarrow> error + int" where
  "py_int (PyInt n) = Inr n"
| "py_int (PyStr s) = py_int_of_str s"

text \<open>\<^verbatim>\<open>str(n)\<close>, as an f-string renders an integer.\<close>

fun str_nat :: "nat \<Rightarrow> string" where
  "str_nat n = (if n < 10 then [char_of (48 + n)] else str_nat (n div 10) @ [char_of (48 + n mod 10)])"

declare str_nat.simps [simp del]

definition str_int :: "int \<Rightarrow> string" where
  "str_int i = (if i < 0 then CHR ''-'' # str_nat (nat (- i)) else str_nat (nat i))"

fun py_str :: "pyval \<Rightarrow> string" where
  "py_str (PyInt n) = str_int n"
| "py_str (PyStr s) = s"

text \<open>\<^verbatim>\<open>xs[0]\<close> raises on the empty list.\<close>

definition first_item :: "'a list \<Rightarrow> error + 'a" where
  "first_item xs = (case xs of [] \<Rightarrow> Inl IndexError | x # _ \<Rightarrow> Inr x)"

text \<open>\<^verbatim>\<open>max(xs)\<close> raises on the empty list.\<close>

definition py_max :: "int list \<Rightarrow> error + int" where
  "py_max xs = (case xs of [] \<Rightarrow> Inl ValueError | x # ys \<Rightarrow> Inr (fold max ys x))"

text \<open>
  \<^verbatim>\<open>xs[:stop]\<close>: a negative \<open>stop\<close> counts from the end, and the slice is clipped
  to the list.
\<close>

definition py_slice_to :: "'a list \<Rightarrow> int \<Rightarrow> 'a list" where
  "py_slice_to xs stop =
     (if 0 \<le> stop then take (nat stop) xs else take (length xs - nat (- stop)) xs)"

text \<open>
  \<^verbatim>\<open>sorted(xs, key=k, reverse=r)\<close>: a stable sort by key. With
  \<^verbatim>\<open>reverse=True\<close> the interpreter reverses the list, sorts it in ascending order
  and reverses the result, which keeps elements of equal key in their original order.
\<close>

definition py_sorted :: "('a \<Rightarrow> int) \<Rightarrow> bool \<Rightarrow> 'a list \<Rightarrow> 'a list" where
  "py_sorted k reverse xs = (if reverse then rev (sort_key k (rev xs)) else sort_key k xs)"

section \<open>Data transfer objects\<close>

text \<open>
  The dataclasses \<^verbatim>\<open>Result\<close> and \<^verbatim>\<open>BranchResult\<close>. Python does not enforce
  the annotation \<^verbatim>\<open>number_of_lines: int\<close>: the branch report stores
  \<^verbatim>\<open>int(code_lines)\<close>, the file listing stores the measure value as received.
\<close>

record 'n Result =
  number_of_lines :: 'n
  "identifier" :: string

record 'n BranchResult = "'n Result" +
  branch_name :: string

section \<open>The client library\<close>

text \<open>
  The responses of the client library, typed as the REST interface documents them:
  a project has a \<^verbatim>\<open>key\<close>, a branch a \<^verbatim>\<open>name\<close>, a measure a
  \<^verbatim>\<open>value\<close>, a component of the tree a \<^verbatim>\<open>path\<close> and \<^verbatim>\<open>measures\<close>.
  The service is taken at one moment: a response is a function of the request.
  \<open>search_project_branches\<close> gives the list under \<^verbatim>\<open>"branches"\<close>,
  \<open>get_component_with_specified_measures\<close> the list under
  \<^verbatim>\<open>["component"]["measures"]\<close>.
\<close>

record project =
  p_key :: string

record branch =
  b_name :: string

record measure =
  m_value :: pyval

record component =
  c_path :: string
  c_measures :: "measure list"

record tree_query =
  q_component :: string
  q_branch :: string
  q_metricKeys :: string
  q_strategy :: string
  q_metricSort :: string
  q_asc :: string
  q_s :: string

record SonarQubeClient =
  search_projects :: "error + project list"
  search_project_branches :: "string \<Rightarrow> error + branch list"
  get_component_with_specified_measures :: "string \<Rightarrow> string option \<Rightarrow> string \<Rightarrow> error + measure list"
  get_component_tree_with_specified_measures :: "tree_query \<Rightarrow> error + component list"

section \<open>SonarQubeFacade\<close>

record SonarQubeFacade =
  sonarqube_url :: string
  f_token :: "string option"
  f_client :: SonarQubeClient

text \<open>\<^verbatim>\<open>os.getenv\<close> gives \<^verbatim>\<open>None\<close> for a variable that is not set.\<close>

definition get_token_from_environment_variables :: "(string \<rightharpoonup> string) \<Rightarrow> string option" where
  "get_token_from_environment_variables env = env ''SONARQUBE_ADMIN_TOKEN''"

text \<open>
  The constructor. \<open>create\<close> is the constructor of the client library,
  \<^verbatim>\<open>SonarQubeClient(sonarqube_url=..., token=...)\<close>; an empty string is falsy.
\<close>

definition SonarQubeFacade_init ::
  "(string \<Rightarrow> string option \<Rightarrow> SonarQubeClient) \<Rightarrow> (string \<rightharpoonup> string) \<Rightarrow> string \<Rightarrow> string \<Rightarrow> SonarQubeFacade" where
  "SonarQubeFacade_init create env url token =
     (let t = (if token \<noteq> [] then Some token else get_token_from_environment_variables env)
      in \<lparr>sonarqube_url = url, f_token = t, f_client = create url t\<rparr>)"

definition get_project_keys :: "SonarQubeFacade \<Rightarrow> error + string list" where
  "get_project_keys self =
     and_then (search_projects (f_client self)) (\<lambda>return_object. Inr (map p_key return_object))"

definition get_project_size :: "SonarQubeFacade \<Rightarrow> string \<Rightarrow> error + pyval" where
  "get_project_size self project_key =
     and_then (get_component_with_specified_measures (f_client self) project_key None ''ncloc'')
       (\<lambda>measures. if length measures > 0 then Inr (m_value (hd measures)) else Inr (PyInt 0))"

definition get_branches :: "SonarQubeFacade \<Rightarrow> string \<Rightarrow> error + string list" where
  "get_branches self project_key =
     and_then (search_project_branches (f_client self) project_key)
       (\<lambda>branches. Inr (map b_name branches))"

definition get_branch_size :: "SonarQubeFacade \<Rightarrow> string \<Rightarrow> string \<Rightarrow> error + pyval" where
  "get_branch_size self project_key branch_name' =
     and_then (get_component_with_specified_measures (f_client self) project_key (Some branch_name') ''ncloc'')
       (\<lambda>measures. if length measures > 0 then Inr (m_value (hd measures)) else Inr (PyInt 0))"

fun file_results :: "component list \<Rightarrow> error + pyval Result list" where
  "file_results [] = Inr []"
| "file_results (c # cs) =
     and_then (first_item (c_measures c)) (\<lambda>m.
     and_then (file_results cs) (\<lambda>rs.
     Inr (\<lparr>number_of_lines = m_value m, identifier = c_path c\<rparr> # rs)))"

definition get_file_sizes :: "SonarQubeFacade \<Rightarrow> string \<Rightarrow> string \<Rightarrow> error + pyval Result list" where
  "get_file_sizes self project_key branch_name' =
     and_then (get_component_tree_with_specified_measures (f_client self)
                 \<lparr>q_component = project_key, q_branch = branch_name', q_metricKeys = ''ncloc'',
                  q_strategy = ''leaves'', q_metricSort = ''ncloc'', q_asc = ''false'',
                  q_s = ''metric''\<rparr>)
       file_results"

section \<open>SonarQubeNumberOfLinesAnalysis\<close>

record SonarQubeNumberOfLinesAnalysis =
  client :: SonarQubeFacade

text \<open>The inner and the outer loop of \<^verbatim>\<open>get_branch_size_report\<close>.\<close>

fun branch_loop ::
  "SonarQubeFacade \<Rightarrow> string \<Rightarrow> string list \<Rightarrow> int BranchResult list \<Rightarrow> error + int BranchResult list" where
  "branch_loop c project [] branch_results = Inr branch_results"
| "branch_loop c project (b # bs) branch_results =
     and_then (get_branch_size c project b) (\<lambda>code_lines.
     and_then (py_int code_lines) (\<lambda>n.
     branch_loop c project bs
       (branch_results @ [\<lparr>number_of_lines = n, identifier = project, branch_name = b\<rparr>])))"

fun project_loop ::
  "SonarQubeFacade \<Rightarrow> string list \<Rightarrow> int BranchResult list \<Rightarrow> error + int BranchResult list" where
  "project_loop c [] branch_results = Inr branch_results"
| "project_loop c (project # ps) branch_results =
     and_then (get_branches c project) (\<lambda>branches.
     and_then (branch_loop c project branches branch_results) (\<lambda>branch_results'.
     project_loop c ps branch_results'))"

definition branch_row :: "int BranchResult \<Rightarrow> string" where
  "branch_row result =
     identifier result @ '', '' @ branch_name result @ '', '' @ str_int (number_of_lines result) @ [CHR 0x0A]"

definition branch_header :: string where
  "branch_header = ''Project, Branch, Number of lines of code'' @ [CHR 0x0A]"

definition get_branch_size_report :: "SonarQubeNumberOfLinesAnalysis \<Rightarrow> error + string" where
  "get_branch_size_report self =
     and_then (get_project_keys (client self)) (\<lambda>project_keys.
     and_then (project_loop (client self) project_keys []) (\<lambda>branch_results.
     Inr (foldl (\<lambda>report_string result. report_string @ branch_row result) branch_header
            (py_sorted number_of_lines True branch_results))))"

text \<open>The list comprehension and the loop of \<^verbatim>\<open>get_total_size\<close>.\<close>

fun branch_sizes :: "SonarQubeFacade \<Rightarrow> string \<Rightarrow> string list \<Rightarrow> error + int list" where
  "branch_sizes c project [] = Inr []"
| "branch_sizes c project (b # bs) =
     and_then (get_branch_size c project b) (\<lambda>v.
     and_then (py_int v) (\<lambda>n.
     and_then (branch_sizes c project bs) (\<lambda>ns.
     Inr (n # ns))))"

fun total_loop :: "SonarQubeFacade \<Rightarrow> string list \<Rightarrow> int \<Rightarrow> error + int" where
  "total_loop c [] total_lines = Inr total_lines"
| "total_loop c (project # ps) total_lines =
     and_then (get_branches c project) (\<lambda>branches.
     and_then (branch_sizes c project branches) (\<lambda>number_of_lines.
     and_then (py_max number_of_lines) (\<lambda>m.
     total_loop c ps (total_lines + m))))"

definition get_total_size :: "SonarQubeNumberOfLinesAnalysis \<Rightarrow> error + int" where
  "get_total_size self =
     and_then (get_project_keys (client self)) (\<lambda>project_keys.
     total_loop (client self) project_keys 0)"

definition file_row :: "string \<Rightarrow> string \<Rightarrow> pyval Result \<Rightarrow> string" where
  "file_row project_key branch_name' file_size =
     project_key @ '', '' @ branch_name' @ '', '' @ identifier file_size @ '', ''
       @ py_str (number_of_lines file_size) @ [CHR 0x0A]"

definition file_header :: string where
  "file_header = ''Project, Branch, Path, Number of lines of code'' @ [CHR 0x0A]"

definition get_top_x_files_report ::
  "SonarQubeNumberOfLinesAnalysis \<Rightarrow> string \<Rightarrow> string \<Rightarrow> int \<Rightarrow> error + string" where
  "get_top_x_files_report self project_key branch_name' top_x =
     and_then (get_file_sizes (client self) project_key branch_name') (\<lambda>file_sizes.
     Inr (foldl (\<lambda>report file_size. report @ file_row project_key branch_name' file_size)
            file_header (py_slice_to file_sizes top_x)))"

section \<open>The answers of the gateway\<close>

text \<open>
  The claims speak of the projects, branches and line counts that the gateway returns.
  \<open>answers c keys brs loc\<close> says that the facade \<open>c\<close> lists the projects
  \<open>keys\<close>, the branches \<open>brs p\<close> for each of them, and that the size of branch
  \<open>b\<close> of project \<open>p\<close> converts to the integer \<open>loc p b\<close>.
  \<open>discovered\<close> is the list of branch results in discovery order: projects in the
  order of the listing, the branches of one project in the order of its listing.
\<close>

definition discovered :: "string list \<Rightarrow> (string \<Rightarrow> string list) \<Rightarrow> (string \<Rightarrow> string \<Rightarrow> int) \<Rightarrow> int BranchResult list" where
  "discovered keys brs loc =
     concat (map (\<lambda>p. map (\<lambda>b. \<lparr>number_of_lines = loc p b, identifier = p, branch_name = b\<rparr>) (brs p)) keys)"

definition answers ::
  "SonarQubeFacade \<Rightarrow> string list \<Rightarrow> (string \<Rightarrow> string list) \<Rightarrow> (string \<Rightarrow> string \<Rightarrow> int) \<Rightarrow> bool" where
  "answers c keys brs loc =
     (get_project_keys c = Inr keys \<and>
      (\<forall>p \<in> set keys. get_branches c p = Inr (brs p) \<and>
         (\<forall>b \<in> set (brs p). and_then (get_branch_size c p b) py_int = Inr (loc p b))))"


section \<open>A scenario\<close>

text \<open>
  Project \<open>A\<close> with the branches \<open>main\<close> (100 lines) and \<open>feature\<close> (150 lines),
  project \<open>B\<close> with the branch \<open>main\<close> (50 lines); branch \<open>main\<close> of \<open>A\<close>
  has the files \<open>x.py\<close> (80), \<open>y.py\<close> (60) and \<open>z.py\<close> (10).
\<close>

definition scenario_client :: SonarQubeClient where
  "scenario_client = \<lparr>
     search_projects = Inr [\<lparr>p_key = ''A''\<rparr>, \<lparr>p_key = ''B''\<rparr>],
     search_project_branches = (\<lambda>p.
       if p = ''A'' then Inr [\<lparr>b_name = ''main''\<rparr>, \<lparr>b_name = ''feature''\<rparr>]
       else if p = ''B'' then Inr [\<lparr>b_name = ''main''\<rparr>]
       else Inl (ClientError ''not found'')),
     get_component_with_specified_measures = (\<lambda>p b m.
       if p = ''A'' \<and> b = Some ''main'' then Inr [\<lparr>m_value = PyStr ''100''\<rparr>]
       else if p = ''A'' \<and> b = Some ''feature'' then Inr [\<lparr>m_value = PyStr ''150''\<rparr>]
       else if p = ''B'' \<and> b = Some ''main'' then Inr [\<lparr>m_value = PyStr ''50''\<rparr>]
       else Inl (ClientError ''not found'')),
     get_component_tree_with_specified_measures = (\<lambda>q.
       if q_component q = ''A'' \<and> q_branch q = ''main''
       then Inr [\<lparr>c_path = ''x.py'', c_measures = [\<lparr>m_value = PyStr ''80''\<rparr>]\<rparr>,
                 \<lparr>c_path = ''y.py'', c_measures = [\<lparr>m_value = PyStr ''60''\<rparr>]\<rparr>,
                 \<lparr>c_path = ''z.py'', c_measures = [\<lparr>m_value = PyStr ''10''\<rparr>]\<rparr>]
       else Inl (ClientError ''not found''))\<rparr>"

definition scenario_facade :: SonarQubeFacade where
  "scenario_facade =
     SonarQubeFacade_init (\<lambda>url t. scenario_client) Map.empty ''https://sonar.example:9000'' ''secret''"

definition scenario_branches :: "string \<Rightarrow> string list" where
  "scenario_branches p = (if p = ''A'' then [''main'', ''feature''] else [''main''])"

definition scenario_loc :: "string \<Rightarrow> string \<Rightarrow> int" where
  "scenario_loc p b = (if p = ''A'' then (if b = ''main'' then 100 else 150) else 50)"

text \<open>
  Project \<open>A\<close> with the branches \<open>main\<close> (100 lines) and \<open>wip\<close> (no measure
  in the response), and project \<open>E\<close> without any branch.
\<close>

definition sparse_client :: SonarQubeClient where
  "sparse_client = \<lparr>
     search_projects = Inr [\<lparr>p_key = ''A''\<rparr>, \<lparr>p_key = ''E''\<rparr>],
     search_project_branches = (\<lambda>p.
       if p = ''A'' then Inr [\<lparr>b_name = ''main''\<rparr>, \<lparr>b_name = ''wip''\<rparr>]
       else if p = ''E'' then Inr []
       else Inl (ClientError ''not found'')),
     get_component_with_specified_measures = (\<lambda>p b m.
       if p = ''A'' \<and> b = Some ''main'' then Inr [\<lparr>m_value = PyStr ''100''\<rparr>]
       else if p = ''A'' \<and> b = Some ''wip'' then Inr []
       else Inl (ClientError ''not found'')),
     get_component_tree_with_specified_measures = (\<lambda>q. Inl (ClientError ''not found''))\<rparr>"

definition sparse_facade :: SonarQubeFacade where
  "sparse_facade =
     SonarQubeFacade_init (\<lambda>url t. sparse_client) Map.empty ''https://sonar.example:9000'' ''secret''"

definition sparse_branches :: "string \<Rightarrow> string list" where
  "sparse_branches p = (if p = ''A'' then [''main'', ''wip''] else [])"

definition sparse_loc :: "string \<Rightarrow> string \<Rightarrow> int" where
  "sparse_loc p b = (if b = ''main'' then 100 else 0)"

text \<open>
  Two projects whose branches tie: \<open>P\<close> with \<open>main\<close> (10 lines) and \<open>dev\<close> (20),
  \<open>Q\<close> with \<open>main\<close> (20) and \<open>old\<close> (10).
\<close>

definition tie_client :: SonarQubeClient where
  "tie_client = \<lparr>
     search_projects = Inr [\<lparr>p_key = ''P''\<rparr>, \<lparr>p_key = ''Q''\<rparr>],
     search_project_branches = (\<lambda>p.
       if p = ''P'' then Inr [\<lparr>b_name = ''main''\<rparr>, \<lparr>b_name = ''dev''\<rparr>]
       else if p = ''Q'' then Inr [\<lparr>b_name = ''main''\<rparr>, \<lparr>b_name = ''old''\<rparr>]
       else Inl (ClientError ''not found'')),
     get_component_with_specified_measures = (\<lambda>p b m.
       if p = ''P'' \<and> b = Some ''main'' then Inr [\<lparr>m_value = PyStr ''10''\<rparr>]
       else if p = ''P'' \<and> b = Some ''dev'' then Inr [\<lparr>m_value = PyStr ''20''\<rparr>]
       else if p = ''Q'' \<and> b = Some ''main'' then Inr [\<lparr>m_value = PyStr ''20''\<rparr>]
       else if p = ''Q'' \<and> b = Some ''old'' then Inr [\<lparr>m_value = PyStr ''10''\<rparr>]
       else Inl (ClientError ''not found'')),
     get_component_tree_with_specified_measures = (\<lambda>q. Inl (ClientError ''not found''))\<rparr>"

definition tie_facade :: SonarQubeFacade where
  "tie_facade =
     SonarQubeFacade_init (\<lambda>url t. tie_client) Map.empty ''https://sonar.example:9000'' ''secret''"

definition tie_branches :: "string \<Rightarrow> string list" where
  "tie_branches p = (if p = ''P'' then [''main'', ''dev''] else [''main'', ''old''])"

definition tie_loc :: "string \<Rightarrow> string \<Rightarrow> int" where
  "tie_loc p b = (if (p = ''P'' \<and> b = ''dev'') \<or> (p = ''Q'' \<and> b = ''main'') then 20 else 10)"

text \<open>
  A second installation that answers the report's requests as the scenario does, under
  another address and token, and differs on every other request.
\<close>

definition mirror_client :: SonarQubeClient where
  "mirror_client = \<lparr>
     search_projects = Inr [\<lparr>p_key = ''A''\<rparr>, \<lparr>p_key = ''B''\<rparr>],
     search_project_branches = (\<lambda>p.
       if p = ''A'' then Inr [\<lparr>b_name = ''main''\<rparr>, \<lparr>b_name = ''feature''\<rparr>]
       else if p = ''B'' then Inr [\<lparr>b_name = ''main''\<rparr>]
       else Inr [\<lparr>b_name = ''trunk''\<rparr>]),
     get_component_with_specified_measures = (\<lambda>p b m.
       if p = ''A'' \<and> b = Some ''main'' then Inr [\<lparr>m_value = PyStr ''100''\<rparr>]
       else if p = ''A'' \<and> b = Some ''feature'' then Inr [\<lparr>m_value = PyStr ''150''\<rparr>]
       else if p = ''B'' \<and> b = Some ''main'' then Inr [\<lparr>m_value = PyStr ''50''\<rparr>]
       else Inr [\<lparr>m_value = PyStr ''7''\<rparr>]),
     get_component_tree_with_specified_measures = (\<lambda>q. Inr [])\<rparr>"

definition mirror_facade :: SonarQubeFacade where
  "mirror_facade =
     SonarQubeFacade_init (\<lambda>url t. mirror_client) [''SONARQUBE_ADMIN_TOKEN'' \<mapsto> ''other'']
       ''https://mirror.example:9000'' ''''"

text \<open>
  One project \<open>A\<close> with the single branch \<open>main\<close> of 100 lines, and a response of
  the tree request that is not in descending order of the metric.
\<close>

definition unsorted_client :: SonarQubeClient where
  "unsorted_client = \<lparr>
     search_projects = Inr [\<lparr>p_key = ''A''\<rparr>],
     search_project_branches = (\<lambda>p. Inr [\<lparr>b_name = ''main''\<rparr>]),
     get_component_with_specified_measures = (\<lambda>p b m. Inr [\<lparr>m_value = PyStr ''100''\<rparr>]),
     get_component_tree_with_specified_measures = (\<lambda>q.
       Inr [\<lparr>c_path = ''a.py'', c_measures = [\<lparr>m_value = PyStr ''10''\<rparr>]\<rparr>,
            \<lparr>c_path = ''b.py'', c_measures = [\<lparr>m_value = PyStr ''80''\<rparr>]\<rparr>,
            \<lparr>c_path = ''c.py'', c_measures = [\<lparr>m_value = PyStr ''30''\<rparr>]\<rparr>])\<rparr>"

definition unsorted_facade :: SonarQubeFacade where
  "unsorted_facade =
     SonarQubeFacade_init (\<lambda>url t. unsorted_client) Map.empty ''https://sonar.example:9000'' ''secret''"

text \<open>
  A list is in descending order of a key that may fail to convert: every element's key
  converts, and no later key is greater than an earlier one.
\<close>

fun key_ge :: "error + int \<Rightarrow> error + int \<Rightarrow> bool" where
  "key_ge (Inr m) (Inr n) = (n \<le> m)"
| "key_ge _ _ = False"

definition descending_by :: "('a \<Rightarrow> error + int) \<Rightarrow> 'a list \<Rightarrow> bool" where
  "descending_by k xs = sorted_wrt (\<lambda>x y. key_ge (k x) (k y)) xs"

text \<open>The scenario's installation, reached without a token.\<close>

definition anonymous_facade :: SonarQubeFacade where
  "anonymous_facade =
     SonarQubeFacade_init (\<lambda>url t. scenario_client) Map.empty ''https://sonar.example:9000'' ''''"

text \<open>
  One project \<open>P\<close> with the branch \<open>b\<close>, whose value is the code point 28 followed
  by the digit 5, and the branch \<open>w\<close> without a measure.
\<close>

definition separator_client :: SonarQubeClient where
  "separator_client = \<lparr>
     search_projects = Inr [\<lparr>p_key = ''P''\<rparr>],
     search_project_branches = (\<lambda>p. Inr [\<lparr>b_name = ''b''\<rparr>, \<lparr>b_name = ''w''\<rparr>]),
     get_component_with_specified_measures = (\<lambda>p b m.
       if b = Some ''b'' then Inr [\<lparr>m_value = PyStr [CHR 0x1C, CHR ''5'']\<rparr>] else Inr []),
     get_component_tree_with_specified_measures = (\<lambda>q. Inr [])\<rparr>"

definition separator_facade :: SonarQubeFacade where
  "separator_facade =
     SonarQubeFacade_init (\<lambda>url t. separator_client) Map.empty ''https://sonar.example:9000'' ''secret''"

section \<open>Auxiliary facts\<close>

lemma and_then_Inr [simp]: "and_then (Inr v) f = f v"
  by (simp add: and_then_def)

lemma and_then_Inl [simp]: "and_then (Inl e) f = Inl e"
  by (simp add: and_then_def)

lemma and_then_assoc: "and_then (and_then r f) g = and_then r (\<lambda>v. and_then (f v) g)"
  by (cases r) simp_all

lemma and_then_py_int:
  assumes "and_then r py_int = Inr n"
  shows "and_then r (\<lambda>v. and_then (py_int v) f) = f n"
  using assms and_then_assoc [of r py_int f, symmetric] by simp

lemma py_int_keeps_separators:
  "py_int (PyStr [CHR 0x1C, CHR ''5'']) = Inl ValueError"
  by code_simp

lemma py_int_strips_whitespace:
  "py_int (PyStr [CHR 0x09, CHR ''5'', CHR 0xA0]) = Inr 5"
  by code_simp

lemma malformed_value_raises:
  "get_total_size \<lparr>client = separator_facade\<rparr> = Inl ValueError
   \<and> get_branch_size_report \<lparr>client = separator_facade\<rparr> = Inl ValueError"
  by code_simp

lemma foldl_rows: "foldl (\<lambda>r x. r @ g x) h xs = h @ concat (map g xs)"
  by (induction xs arbitrary: h) simp_all

lemma branch_loop_answers:
  assumes "\<forall>b \<in> set bs. and_then (get_branch_size c p b) py_int = Inr (loc b)"
  shows "branch_loop c p bs acc =
    Inr (acc @ map (\<lambda>b. \<lparr>number_of_lines = loc b, identifier = p, branch_name = b\<rparr>) bs)"
  using assms
proof (induction bs arbitrary: acc)
  case Nil
  show ?case by simp
next
  case (Cons b bs)
  from Cons.prems have here: "and_then (get_branch_size c p b) py_int = Inr (loc b)"
    and rest: "\<forall>b \<in> set bs. and_then (get_branch_size c p b) py_int = Inr (loc b)"
    by simp_all
  show ?case
    by (simp add: and_then_py_int [OF here] Cons.IH [OF rest])
qed

lemma project_loop_answers:
  assumes "\<forall>p \<in> set keys. get_branches c p = Inr (brs p) \<and>
         (\<forall>b \<in> set (brs p). and_then (get_branch_size c p b) py_int = Inr (loc p b))"
  shows "project_loop c keys acc = Inr (acc @ discovered keys brs loc)"
  using assms
proof (induction keys arbitrary: acc)
  case Nil
  show ?case by (simp add: discovered_def)
next
  case (Cons p ps)
  from Cons.prems have br: "get_branches c p = Inr (brs p)"
    and sz: "\<forall>b \<in> set (brs p). and_then (get_branch_size c p b) py_int = Inr (loc p b)"
    and rest: "\<forall>p \<in> set ps. get_branches c p = Inr (brs p) \<and>
         (\<forall>b \<in> set (brs p). and_then (get_branch_size c p b) py_int = Inr (loc p b))"
    by simp_all
  have "discovered (p # ps) brs loc =
      map (\<lambda>b. \<lparr>number_of_lines = loc p b, identifier = p, branch_name = b\<rparr>) (brs p) @ discovered ps brs loc"
    by (simp add: discovered_def)
  then show ?case
    by (simp add: br branch_loop_answers [OF sz] Cons.IH [OF rest])
qed

lemma branch_sizes_answers:
  assumes "\<forall>b \<in> set bs. and_then (get_branch_size c p b) py_int = Inr (loc b)"
  shows "branch_sizes c p bs = Inr (map loc bs)"
  using assms
proof (induction bs)
  case Nil
  show ?case by simp
next
  case (Cons b bs)
  from Cons.prems have here: "and_then (get_branch_size c p b) py_int = Inr (loc b)"
    and rest: "\<forall>b \<in> set bs. and_then (get_branch_size c p b) py_int = Inr (loc b)"
    by simp_all
  show ?case
    by (simp add: and_then_py_int [OF here] Cons.IH [OF rest])
qed

lemma py_max_nonempty: "xs \<noteq> [] \<Longrightarrow> py_max xs = Inr (Max (set xs))"
proof (cases xs)
  case Nil
  assume "xs \<noteq> []"
  with Nil show ?thesis by simp
next
  case (Cons x ys)
  have "fold max ys x = Max (set (x # ys))"
    by (rule Max.set_eq_fold [symmetric])
  with Cons show ?thesis by (simp add: py_max_def)
qed

lemma total_loop_answers:
  assumes "\<forall>p \<in> set keys. get_branches c p = Inr (brs p) \<and> brs p \<noteq> [] \<and>
         (\<forall>b \<in> set (brs p). and_then (get_branch_size c p b) py_int = Inr (loc p b))"
  shows "total_loop c keys t = Inr (t + (\<Sum>p\<leftarrow>keys. Max (loc p ` set (brs p))))"
  using assms
proof (induction keys arbitrary: t)
  case Nil
  show ?case by simp
next
  case (Cons p ps)
  from Cons.prems have br: "get_branches c p = Inr (brs p)" and ne: "brs p \<noteq> []"
    and sz: "\<forall>b \<in> set (brs p). and_then (get_branch_size c p b) py_int = Inr (loc p b)"
    and rest: "\<forall>p \<in> set ps. get_branches c p = Inr (brs p) \<and> brs p \<noteq> [] \<and>
         (\<forall>b \<in> set (brs p). and_then (get_branch_size c p b) py_int = Inr (loc p b))"
    by simp_all
  from ne have "py_max (map (loc p) (brs p)) = Inr (Max (loc p ` set (brs p)))"
    by (simp add: py_max_nonempty)
  then show ?case
    by (simp add: br branch_sizes_answers [OF sz] Cons.IH [OF rest])
qed

lemma py_sorted_descending: "sorted_wrt (\<lambda>a b. k b \<le> k a) (py_sorted k True xs)"
proof -
  have "sorted (map k (sort_key k (rev xs)))" by (rule sorted_sort_key)
  then have "sorted_wrt (\<lambda>a b. k a \<le> k b) (sort_key k (rev xs))"
    by (simp add: sorted_wrt_map)
  then show ?thesis
    by (simp add: py_sorted_def sorted_wrt_rev)
qed

lemma py_sorted_stable:
  "filter (\<lambda>y. k y = v) (py_sorted k True xs) = filter (\<lambda>y. k y = v) xs"
proof -
  have "filter (\<lambda>y. k y = v) (rev (sort_key k (rev xs))) = rev (filter (\<lambda>y. k y = v) (sort_key k (rev xs)))"
    by (simp add: rev_filter)
  also have "\<dots> = rev (filter (\<lambda>y. k y = v) (rev xs))"
    by (simp only: sort_key_stable)
  also have "\<dots> = filter (\<lambda>y. k y = v) xs"
    by (simp add: rev_filter)
  finally show ?thesis by (simp add: py_sorted_def)
qed

lemma mset_py_sorted: "mset (py_sorted k r xs) = mset xs"
  by (simp add: py_sorted_def)

section \<open>The total size\<close>

text \<open>
  Claim C1. When the gateway answers with the projects \<open>keys\<close>, the branches
  \<open>brs p\<close> of each project and the line counts \<open>loc p b\<close>, and every project has a
  branch, \<open>get_total_size\<close> returns the sum over the projects of the maximum line
  count of the project's branches (not the sum of its branches). In the scenario the total
  is 150 + 50 = 200.
\<close>

theorem total_size_is_sum_of_maxima:
  assumes "answers c keys brs loc" and "\<forall>p \<in> set keys. brs p \<noteq> []"
  shows "get_total_size \<lparr>client = c\<rparr> = Inr (\<Sum>p\<leftarrow>keys. Max (loc p ` set (brs p)))"
proof -
  from assms have keys: "get_project_keys c = Inr keys"
    and all: "\<forall>p \<in> set keys. get_branches c p = Inr (brs p) \<and> brs p \<noteq> [] \<and>
         (\<forall>b \<in> set (brs p). and_then (get_branch_size c p b) py_int = Inr (loc p b))"
    by (simp_all add: answers_def)
  show ?thesis
    by (simp add: get_total_size_def keys total_loop_answers [OF all])
qed


lemma py_int_100: "py_int_of_str ''100'' = Inr 100"
  by code_simp
lemma py_int_150: "py_int_of_str ''150'' = Inr 150"
  by code_simp
lemma py_int_50: "py_int_of_str ''50'' = Inr 50"
  by code_simp

lemma scenario_answers:
  "answers scenario_facade [''A'', ''B''] scenario_branches scenario_loc"
  by (simp add: answers_def scenario_facade_def scenario_client_def SonarQubeFacade_init_def
      get_project_keys_def get_branches_def get_branch_size_def scenario_branches_def
      scenario_loc_def py_int_100 py_int_150 py_int_50)

lemma single_branch_answers:
  "answers unsorted_facade [''A''] (\<lambda>p. [''main'']) (\<lambda>p b. 100)"
  by (simp add: answers_def unsorted_facade_def unsorted_client_def SonarQubeFacade_init_def
      get_project_keys_def get_branches_def get_branch_size_def py_int_100)

theorem total_size_is_sum_of_maxima_witness:
  "answers scenario_facade [''A'', ''B''] scenario_branches scenario_loc
   \<and> scenario_branches ''A'' \<noteq> [] \<and> scenario_branches ''B'' \<noteq> []
   \<and> get_total_size \<lparr>client = scenario_facade\<rparr> = Inr 200
   \<and> answers unsorted_facade [''A''] (\<lambda>p. [''main'']) (\<lambda>p b. 100)
   \<and> get_total_size \<lparr>client = unsorted_facade\<rparr> = Inr 100"
proof -
  have nonempty: "\<forall>p \<in> set [''A'', ''B'']. scenario_branches p \<noteq> []"
    by (simp add: scenario_branches_def)
  have "get_total_size \<lparr>client = scenario_facade\<rparr> =
      Inr (\<Sum>p\<leftarrow>[''A'', ''B'']. Max (scenario_loc p ` set (scenario_branches p)))"
    by (rule total_size_is_sum_of_maxima [OF scenario_answers nonempty])
  also have "\<dots> = Inr 200"
    by (simp add: scenario_branches_def scenario_loc_def)
  finally have scenario: "get_total_size \<lparr>client = scenario_facade\<rparr> = Inr 200" .
  have single: "get_total_size \<lparr>client = unsorted_facade\<rparr> = Inr 100"
    using total_size_is_sum_of_maxima [OF single_branch_answers] by simp
  show ?thesis
    using scenario single scenario_answers single_branch_answers nonempty by simp
qed

lemma sparse_answers:
  "answers sparse_facade [''A'', ''E''] sparse_branches sparse_loc"
  by (simp add: answers_def sparse_facade_def sparse_client_def SonarQubeFacade_init_def
      get_project_keys_def get_branches_def get_branch_size_def sparse_branches_def
      sparse_loc_def py_int_100)

lemma total_loop_empty_fails:
  assumes "p \<in> set keys" and "get_branches c p = Inr []"
  shows "\<exists>e. total_loop c keys t = Inl e"
  using assms(1)
proof (induction keys arbitrary: t)
  case Nil
  then show ?case by simp
next
  case (Cons q qs)
  show ?case
  proof (cases "q = p")
    case True
    then show ?thesis by (simp add: assms(2) py_max_def)
  next
    case False
    with Cons.prems have "p \<in> set qs" by simp
    then have "\<And>t. \<exists>e. total_loop c qs t = Inl e" by (rule Cons.IH)
    then show ?thesis
      by (simp add: and_then_def split: sum.splits)
  qed
qed

lemma total_loop_empty_ValueError:
  assumes "\<forall>p \<in> set keys. get_branches c p = Inr (brs p) \<and>
         (\<forall>b \<in> set (brs p). and_then (get_branch_size c p b) py_int = Inr (loc p b))"
    and "\<exists>p \<in> set keys. brs p = []"
  shows "total_loop c keys t = Inl ValueError"
  using assms
proof (induction keys arbitrary: t)
  case Nil
  then show ?case by simp
next
  case (Cons q qs)
  from Cons.prems(1) have br: "get_branches c q = Inr (brs q)"
    and sz: "\<forall>b \<in> set (brs q). and_then (get_branch_size c q b) py_int = Inr (loc q b)"
    and rest: "\<forall>p \<in> set qs. get_branches c p = Inr (brs p) \<and>
         (\<forall>b \<in> set (brs p). and_then (get_branch_size c p b) py_int = Inr (loc p b))"
    by simp_all
  show ?case
  proof (cases "brs q = []")
    case True
    then show ?thesis by (simp add: br py_max_def)
  next
    case False
    with Cons.prems(2) have later: "\<exists>p \<in> set qs. brs p = []" by auto
    from False have "py_max (map (loc q) (brs q)) = Inr (Max (loc q ` set (brs q)))"
      by (simp add: py_max_nonempty)
    then show ?thesis
      by (simp add: br branch_sizes_answers [OF sz] Cons.IH [OF rest later])
  qed
qed

text \<open>
  Claim C4. When the gateway answers and every project has at least one branch,
  \<open>get_total_size\<close> returns a total. When a project has an empty branch list, the
  maximum of the empty sequence is undefined: the call never returns a total (the project
  is not skipped), the exception propagates, and it is \<open>ValueError\<close> when the gateway
  answers for every project.
\<close>

theorem total_size_needs_a_branch:
  assumes "get_project_keys c = Inr keys"
  shows "(answers c keys brs loc \<and> (\<forall>p \<in> set keys. brs p \<noteq> [])
            \<longrightarrow> (\<exists>n. get_total_size \<lparr>client = c\<rparr> = Inr n))
       \<and> ((\<exists>p \<in> set keys. get_branches c p = Inr [])
            \<longrightarrow> (\<exists>e. get_total_size \<lparr>client = c\<rparr> = Inl e))
       \<and> (answers c keys brs loc \<and> (\<exists>p \<in> set keys. brs p = [])
            \<longrightarrow> get_total_size \<lparr>client = c\<rparr> = Inl ValueError)"
proof (intro conjI impI)
  assume a: "answers c keys brs loc \<and> (\<forall>p \<in> set keys. brs p \<noteq> [])"
  then have all: "\<forall>p \<in> set keys. get_branches c p = Inr (brs p) \<and> brs p \<noteq> [] \<and>
         (\<forall>b \<in> set (brs p). and_then (get_branch_size c p b) py_int = Inr (loc p b))"
    by (simp add: answers_def)
  show "\<exists>n. get_total_size \<lparr>client = c\<rparr> = Inr n"
    by (simp add: get_total_size_def assms total_loop_answers [OF all])
next
  assume "\<exists>p \<in> set keys. get_branches c p = Inr []"
  then obtain p where "p \<in> set keys" and "get_branches c p = Inr []" by blast
  then have "\<exists>e. total_loop c keys 0 = Inl e" by (rule total_loop_empty_fails)
  then show "\<exists>e. get_total_size \<lparr>client = c\<rparr> = Inl e"
    by (simp add: get_total_size_def assms)
next
  assume a: "answers c keys brs loc \<and> (\<exists>p \<in> set keys. brs p = [])"
  then have all: "\<forall>p \<in> set keys. get_branches c p = Inr (brs p) \<and>
         (\<forall>b \<in> set (brs p). and_then (get_branch_size c p b) py_int = Inr (loc p b))"
    and some: "\<exists>p \<in> set keys. brs p = []"
    by (simp_all add: answers_def)
  show "get_total_size \<lparr>client = c\<rparr> = Inl ValueError"
    by (simp add: get_total_size_def assms total_loop_empty_ValueError [OF all some])
qed

lemma scenario_keys: "get_project_keys scenario_facade = Inr [''A'', ''B'']"
  by (simp add: scenario_facade_def scenario_client_def SonarQubeFacade_init_def get_project_keys_def)

lemma sparse_keys: "get_project_keys sparse_facade = Inr [''A'', ''E'']"
  by (simp add: sparse_facade_def sparse_client_def SonarQubeFacade_init_def get_project_keys_def)

theorem total_size_needs_a_branch_witness:
  "get_project_keys scenario_facade = Inr [''A'', ''B'']
   \<and> (\<exists>n. get_total_size \<lparr>client = scenario_facade\<rparr> = Inr n)
   \<and> get_project_keys sparse_facade = Inr [''A'', ''E'']
   \<and> get_branches sparse_facade ''E'' = Inr []
   \<and> get_total_size \<lparr>client = sparse_facade\<rparr> = Inl ValueError"
proof -
  have ne: "\<forall>p \<in> set [''A'', ''B'']. scenario_branches p \<noteq> []"
    by (simp add: scenario_branches_def)
  have "\<exists>n. get_total_size \<lparr>client = scenario_facade\<rparr> = Inr n"
    using total_size_needs_a_branch [OF scenario_keys, of scenario_branches scenario_loc]
      scenario_answers ne by blast
  moreover have "\<exists>p \<in> set [''A'', ''E'']. sparse_branches p = []"
    by (simp add: sparse_branches_def)
  then have "get_total_size \<lparr>client = sparse_facade\<rparr> = Inl ValueError"
    using total_size_needs_a_branch [OF sparse_keys, of sparse_branches sparse_loc]
      sparse_answers by blast
  moreover have "get_branches sparse_facade ''E'' = Inr []"
    by (simp add: sparse_facade_def sparse_client_def SonarQubeFacade_init_def get_branches_def)
  ultimately show ?thesis using scenario_keys sparse_keys by simp
qed

lemma report_answers:
  assumes "answers c keys brs loc"
  shows "get_branch_size_report \<lparr>client = c\<rparr> =
    Inr (branch_header @ concat (map branch_row (py_sorted number_of_lines True (discovered keys brs loc))))"
proof -
  from assms have keys: "get_project_keys c = Inr keys"
    and all: "\<forall>p \<in> set keys. get_branches c p = Inr (brs p) \<and>
         (\<forall>b \<in> set (brs p). and_then (get_branch_size c p b) py_int = Inr (loc p b))"
    by (simp_all add: answers_def)
  show ?thesis
    by (simp add: get_branch_size_report_def keys project_loop_answers [OF all] foldl_rows)
qed

section \<open>The branch report\<close>

text \<open>
  Claim C2. When the gateway answers, the rows of the report of
  \<open>get_branch_size_report\<close> are the rows of a list of branch results that is sorted
  in descending order of the number of lines, and in which the results of any one number
  of lines stand in discovery order (the order of the projects, then the order of the
  branches of a project): the sort is stable.
\<close>

theorem branch_report_sorted_stable:
  assumes "answers c keys brs loc"
  shows "\<exists>rs. get_branch_size_report \<lparr>client = c\<rparr> = Inr (branch_header @ concat (map branch_row rs))
      \<and> sorted_wrt (\<lambda>a b. number_of_lines b \<le> number_of_lines a) rs
      \<and> (\<forall>n. filter (\<lambda>r. number_of_lines r = n) rs
              = filter (\<lambda>r. number_of_lines r = n) (discovered keys brs loc))"
proof (intro exI conjI allI)
  show "get_branch_size_report \<lparr>client = c\<rparr> =
      Inr (branch_header @ concat (map branch_row (py_sorted number_of_lines True (discovered keys brs loc))))"
    by (rule report_answers [OF assms])
  show "sorted_wrt (\<lambda>a b. number_of_lines b \<le> number_of_lines a)
      (py_sorted number_of_lines True (discovered keys brs loc))"
    by (rule py_sorted_descending)
  show "filter (\<lambda>r. number_of_lines r = n) (py_sorted number_of_lines True (discovered keys brs loc))
      = filter (\<lambda>r. number_of_lines r = n) (discovered keys brs loc)" for n
    by (rule py_sorted_stable)
qed

lemma py_int_10: "py_int_of_str ''10'' = Inr 10"
  by code_simp

lemma py_int_20: "py_int_of_str ''20'' = Inr 20"
  by code_simp

lemma tie_answers: "answers tie_facade [''P'', ''Q''] tie_branches tie_loc"
  by (simp add: answers_def tie_facade_def tie_client_def SonarQubeFacade_init_def
      get_project_keys_def get_branches_def get_branch_size_def tie_branches_def
      tie_loc_def py_int_10 py_int_20)

lemma tie_report:
  "get_branch_size_report \<lparr>client = tie_facade\<rparr> =
     Inr (''Project, Branch, Number of lines of code'' @ [CHR 0x0A]
        @ ''P, dev, 20'' @ [CHR 0x0A] @ ''Q, main, 20'' @ [CHR 0x0A]
        @ ''P, main, 10'' @ [CHR 0x0A] @ ''Q, old, 10'' @ [CHR 0x0A])"
  by code_simp

theorem branch_report_sorted_stable_witness:
  "answers tie_facade [''P'', ''Q''] tie_branches tie_loc
   \<and> (\<exists>rs. get_branch_size_report \<lparr>client = tie_facade\<rparr> = Inr (branch_header @ concat (map branch_row rs))
      \<and> sorted_wrt (\<lambda>a b. number_of_lines b \<le> number_of_lines a) rs
      \<and> (\<forall>n. filter (\<lambda>r. number_of_lines r = n) rs
              = filter (\<lambda>r. number_of_lines r = n) (discovered [''P'', ''Q''] tie_branches tie_loc)))
   \<and> get_branch_size_report \<lparr>client = tie_facade\<rparr> =
     Inr (''Project, Branch, Number of lines of code'' @ [CHR 0x0A]
        @ ''P, dev, 20'' @ [CHR 0x0A] @ ''Q, main, 20'' @ [CHR 0x0A]
        @ ''P, main, 10'' @ [CHR 0x0A] @ ''Q, old, 10'' @ [CHR 0x0A])"
  using branch_report_sorted_stable [OF tie_answers] tie_answers tie_report
  by (intro conjI)

text \<open>
  Claim C8. When the gateway answers, the text of \<open>get_branch_size_report\<close> is the
  header line \<open>Project, Branch, Number of lines of code\<close> followed by one row for each
  pair of a project and one of its branches, no more and no less; a row is the project,
  the branch and the number of lines, separated by a comma and a space, and ends with a
  newline.
\<close>

theorem branch_report_format:
  assumes "answers c keys brs loc"
  shows "\<exists>rs. get_branch_size_report \<lparr>client = c\<rparr> =
        Inr (''Project, Branch, Number of lines of code'' @ [CHR 0x0A]
          @ concat (map (\<lambda>r. identifier r @ '', '' @ branch_name r @ '', ''
                              @ str_int (number_of_lines r) @ [CHR 0x0A]) rs))
      \<and> mset rs = mset (discovered keys brs loc)
      \<and> length rs = (\<Sum>p\<leftarrow>keys. length (brs p))"
proof (intro exI conjI)
  let ?rs = "py_sorted number_of_lines True (discovered keys brs loc)"
  have "get_branch_size_report \<lparr>client = c\<rparr> = Inr (branch_header @ concat (map branch_row ?rs))"
    by (rule report_answers [OF assms])
  moreover have "branch_row = (\<lambda>r. identifier r @ '', '' @ branch_name r @ '', ''
                              @ str_int (number_of_lines r) @ [CHR 0x0A])"
    by (rule ext) (simp add: branch_row_def)
  ultimately show "get_branch_size_report \<lparr>client = c\<rparr> =
        Inr (''Project, Branch, Number of lines of code'' @ [CHR 0x0A]
          @ concat (map (\<lambda>r. identifier r @ '', '' @ branch_name r @ '', ''
                              @ str_int (number_of_lines r) @ [CHR 0x0A]) ?rs))"
    by (simp add: branch_header_def)
  show m: "mset ?rs = mset (discovered keys brs loc)"
    by (rule mset_py_sorted)
  have "length ?rs = length (discovered keys brs loc)"
    using m by (rule mset_eq_length)
  also have "\<dots> = (\<Sum>p\<leftarrow>keys. length (brs p))"
    by (simp add: discovered_def length_concat comp_def)
  finally show "length ?rs = (\<Sum>p\<leftarrow>keys. length (brs p))" .
qed

lemma scenario_report:
  "get_branch_size_report \<lparr>client = scenario_facade\<rparr> =
     Inr (''Project, Branch, Number of lines of code'' @ [CHR 0x0A]
        @ ''A, feature, 150'' @ [CHR 0x0A] @ ''A, main, 100'' @ [CHR 0x0A]
        @ ''B, main, 50'' @ [CHR 0x0A])"
  by code_simp

theorem branch_report_format_witness:
  "answers scenario_facade [''A'', ''B''] scenario_branches scenario_loc
   \<and> (\<exists>rs. get_branch_size_report \<lparr>client = scenario_facade\<rparr> =
        Inr (''Project, Branch, Number of lines of code'' @ [CHR 0x0A]
          @ concat (map (\<lambda>r. identifier r @ '', '' @ branch_name r @ '', ''
                              @ str_int (number_of_lines r) @ [CHR 0x0A]) rs))
      \<and> mset rs = mset (discovered [''A'', ''B''] scenario_branches scenario_loc)
      \<and> length rs = 3)
   \<and> get_branch_size_report \<lparr>client = scenario_facade\<rparr> =
     Inr (''Project, Branch, Number of lines of code'' @ [CHR 0x0A]
        @ ''A, feature, 150'' @ [CHR 0x0A] @ ''A, main, 100'' @ [CHR 0x0A]
        @ ''B, main, 50'' @ [CHR 0x0A])"
proof -
  have "(\<Sum>p\<leftarrow>[''A'', ''B'']. length (scenario_branches p)) = 3"
    by (simp add: scenario_branches_def)
  with branch_report_format [OF scenario_answers] scenario_answers scenario_report
  show ?thesis by simp
qed

lemma branch_loop_agree:
  assumes "\<forall>b \<in> set bs. get_branch_size c p b = get_branch_size c' p b"
  shows "branch_loop c p bs acc = branch_loop c' p bs acc"
  using assms by (induction bs arbitrary: acc) simp_all

lemma project_loop_agree:
  assumes "\<forall>p \<in> set keys. get_branches c p = get_branches c' p \<and>
      (\<forall>bs. get_branches c p = Inr bs \<longrightarrow> (\<forall>b \<in> set bs. get_branch_size c p b = get_branch_size c' p b))"
  shows "project_loop c keys acc = project_loop c' keys acc"
  using assms
proof (induction keys arbitrary: acc)
  case Nil
  show ?case by simp
next
  case (Cons p ps)
  from Cons.prems have br: "get_branches c p = get_branches c' p"
    and sz: "\<And>bs. get_branches c p = Inr bs \<Longrightarrow> \<forall>b \<in> set bs. get_branch_size c p b = get_branch_size c' p b"
    and rest: "\<forall>p \<in> set ps. get_branches c p = get_branches c' p \<and>
      (\<forall>bs. get_branches c p = Inr bs \<longrightarrow> (\<forall>b \<in> set bs. get_branch_size c p b = get_branch_size c' p b))"
    by simp_all
  note IH = Cons.IH [OF rest]
  show ?case
  proof (cases "get_branches c p")
    case (Inl e)
    with br have "get_branches c' p = Inl e" by simp
    with Inl show ?thesis by simp
  next
    case (Inr bs)
    with br have other: "get_branches c' p = Inr bs" by simp
    from sz [OF Inr] have "branch_loop c p bs acc = branch_loop c' p bs acc"
      by (rule branch_loop_agree)
    with Inr other show ?thesis
      by (cases "branch_loop c' p bs acc") (simp_all add: IH)
  qed
qed

text \<open>
  Claim C9. Two facades that give identical answers to the requests of the report (the
  same project keys in the same order, for each project the same branches in the same
  order, for each branch the same size, or the same exception) produce the same result
  of \<open>get_branch_size_report\<close>, character by character: the text depends on nothing
  but these answers.
\<close>

theorem branch_report_deterministic:
  assumes "get_project_keys c = get_project_keys c'"
    and "\<forall>keys. get_project_keys c = Inr keys \<longrightarrow>
      (\<forall>p \<in> set keys. get_branches c p = get_branches c' p \<and>
        (\<forall>bs. get_branches c p = Inr bs \<longrightarrow>
          (\<forall>b \<in> set bs. get_branch_size c p b = get_branch_size c' p b)))"
  shows "get_branch_size_report \<lparr>client = c\<rparr> = get_branch_size_report \<lparr>client = c'\<rparr>"
proof (cases "get_project_keys c")
  case (Inl e)
  with assms(1) have "get_project_keys c' = Inl e" by simp
  with Inl show ?thesis by (simp add: get_branch_size_report_def)
next
  case (Inr keys)
  with assms(2) have "\<forall>p \<in> set keys. get_branches c p = get_branches c' p \<and>
      (\<forall>bs. get_branches c p = Inr bs \<longrightarrow> (\<forall>b \<in> set bs. get_branch_size c p b = get_branch_size c' p b))"
    by blast
  then have "project_loop c keys [] = project_loop c' keys []"
    by (rule project_loop_agree)
  moreover from Inr assms(1) have "get_project_keys c' = Inr keys" by simp
  ultimately show ?thesis
    using Inr by (simp add: get_branch_size_report_def)
qed

lemma facades_differ: "scenario_facade \<noteq> mirror_facade"
  by (simp add: scenario_facade_def mirror_facade_def SonarQubeFacade_init_def)

theorem branch_report_deterministic_witness:
  "scenario_facade \<noteq> mirror_facade
   \<and> get_project_keys scenario_facade = get_project_keys mirror_facade
   \<and> get_branch_size_report \<lparr>client = scenario_facade\<rparr> = get_branch_size_report \<lparr>client = mirror_facade\<rparr>"
proof -
  have keys: "get_project_keys scenario_facade = get_project_keys mirror_facade"
    by (simp add: scenario_facade_def scenario_client_def mirror_facade_def mirror_client_def
        SonarQubeFacade_init_def get_project_keys_def)
  have same: "\<forall>keys. get_project_keys scenario_facade = Inr keys \<longrightarrow>
      (\<forall>p \<in> set keys. get_branches scenario_facade p = get_branches mirror_facade p \<and>
        (\<forall>bs. get_branches scenario_facade p = Inr bs \<longrightarrow>
          (\<forall>b \<in> set bs. get_branch_size scenario_facade p b = get_branch_size mirror_facade p b)))"
    by (auto simp add: scenario_facade_def scenario_client_def mirror_facade_def mirror_client_def
        SonarQubeFacade_init_def get_project_keys_def get_branches_def get_branch_size_def)
  show ?thesis
    using branch_report_deterministic [OF keys same] keys facades_differ by simp
qed

section \<open>A branch without the metric\<close>

text \<open>
  Claim C5. When the response for a branch has an empty list of measures,
  \<open>get_branch_size\<close> returns 0 and raises nothing; and when the gateway answers, the
  branch report has a row for that branch, with the value 0.
\<close>

theorem absent_metric_is_zero:
  assumes "get_component_with_specified_measures (f_client c) p (Some b) ''ncloc'' = Inr []"
  shows "get_branch_size c p b = Inr (PyInt 0)
    \<and> (\<forall>keys brs loc. answers c keys brs loc \<and> p \<in> set keys \<and> b \<in> set (brs p) \<longrightarrow>
         (\<exists>rs. get_branch_size_report \<lparr>client = c\<rparr> = Inr (branch_header @ concat (map branch_row rs))
            \<and> \<lparr>number_of_lines = 0, identifier = p, branch_name = b\<rparr> \<in> set rs))"
proof (intro conjI allI impI)
  show zero: "get_branch_size c p b = Inr (PyInt 0)"
    by (simp add: get_branch_size_def assms)
  fix keys brs loc
  assume a: "answers c keys brs loc \<and> p \<in> set keys \<and> b \<in> set (brs p)"
  let ?rs = "py_sorted number_of_lines True (discovered keys brs loc)"
  from a have "and_then (get_branch_size c p b) py_int = Inr (loc p b)"
    by (simp add: answers_def)
  with zero have "loc p b = 0" by simp
  with a have "\<lparr>number_of_lines = 0, identifier = p, branch_name = b\<rparr> \<in> set (discovered keys brs loc)"
    by (force simp add: discovered_def)
  moreover have "set ?rs = set (discovered keys brs loc)"
    by (rule mset_eq_setD) (rule mset_py_sorted)
  ultimately have "\<lparr>number_of_lines = 0, identifier = p, branch_name = b\<rparr> \<in> set ?rs"
    by simp
  moreover from a have "get_branch_size_report \<lparr>client = c\<rparr> = Inr (branch_header @ concat (map branch_row ?rs))"
    by (simp add: report_answers)
  ultimately show "\<exists>rs. get_branch_size_report \<lparr>client = c\<rparr> = Inr (branch_header @ concat (map branch_row rs))
            \<and> \<lparr>number_of_lines = 0, identifier = p, branch_name = b\<rparr> \<in> set rs"
    by blast
qed

lemma sparse_report:
  "get_branch_size_report \<lparr>client = sparse_facade\<rparr> =
     Inr (''Project, Branch, Number of lines of code'' @ [CHR 0x0A]
        @ ''A, main, 100'' @ [CHR 0x0A] @ ''A, wip, 0'' @ [CHR 0x0A])"
  by code_simp

theorem absent_metric_is_zero_witness:
  "get_component_with_specified_measures (f_client sparse_facade) ''A'' (Some ''wip'') ''ncloc'' = Inr []
   \<and> get_branch_size sparse_facade ''A'' ''wip'' = Inr (PyInt 0)
   \<and> (\<exists>rs. get_branch_size_report \<lparr>client = sparse_facade\<rparr> = Inr (branch_header @ concat (map branch_row rs))
            \<and> \<lparr>number_of_lines = 0, identifier = ''A'', branch_name = ''wip''\<rparr> \<in> set rs)
   \<and> get_branch_size_report \<lparr>client = sparse_facade\<rparr> =
     Inr (''Project, Branch, Number of lines of code'' @ [CHR 0x0A]
        @ ''A, main, 100'' @ [CHR 0x0A] @ ''A, wip, 0'' @ [CHR 0x0A])"
proof -
  have absent: "get_component_with_specified_measures (f_client sparse_facade) ''A'' (Some ''wip'') ''ncloc'' = Inr []"
    by (simp add: sparse_facade_def sparse_client_def SonarQubeFacade_init_def)
  have "''A'' \<in> set [''A'', ''E'']" and "''wip'' \<in> set (sparse_branches ''A'')"
    by (simp_all add: sparse_branches_def)
  with absent_metric_is_zero [OF absent] sparse_answers
  have "get_branch_size sparse_facade ''A'' ''wip'' = Inr (PyInt 0)
    \<and> (\<exists>rs. get_branch_size_report \<lparr>client = sparse_facade\<rparr> = Inr (branch_header @ concat (map branch_row rs))
            \<and> \<lparr>number_of_lines = 0, identifier = ''A'', branch_name = ''wip''\<rparr> \<in> set rs)"
    by blast
  with absent sparse_report show ?thesis by (intro conjI) simp_all
qed

section \<open>The largest files\<close>

lemma top_x_report:
  assumes "get_file_sizes (client self) p b = Inr files"
  shows "get_top_x_files_report self p b top_x =
    Inr (file_header @ concat (map (file_row p b) (py_slice_to files top_x)))"
  by (simp add: get_top_x_files_report_def assms foldl_rows)

lemma scenario_files:
  "get_file_sizes (client \<lparr>client = scenario_facade\<rparr>) ''A'' ''main'' =
     Inr [\<lparr>number_of_lines = PyStr ''80'', identifier = ''x.py''\<rparr>,
          \<lparr>number_of_lines = PyStr ''60'', identifier = ''y.py''\<rparr>,
          \<lparr>number_of_lines = PyStr ''10'', identifier = ''z.py''\<rparr>]"
  by (simp add: get_file_sizes_def scenario_facade_def scenario_client_def SonarQubeFacade_init_def
      first_item_def)

lemma unsorted_files:
  "get_file_sizes unsorted_facade ''A'' ''main'' =
     Inr [\<lparr>number_of_lines = PyStr ''10'', identifier = ''a.py''\<rparr>,
          \<lparr>number_of_lines = PyStr ''80'', identifier = ''b.py''\<rparr>,
          \<lparr>number_of_lines = PyStr ''30'', identifier = ''c.py''\<rparr>]"
  by (simp add: get_file_sizes_def unsorted_facade_def unsorted_client_def SonarQubeFacade_init_def
      first_item_def)

text \<open>
  Claim C6. For a top_x that is not negative, \<open>get_top_x_files_report\<close> writes the rows
  of at most top_x of the files that the gateway returned, and of all of them when there
  are no more than top_x. Over the files \<open>x.py\<close> (80), \<open>y.py\<close> (60), \<open>z.py\<close> (10)
  and top_x = 2 the text has the first two rows.
\<close>

theorem top_files_at_most_top_x:
  assumes "get_file_sizes (client self) p b = Inr files" and "0 \<le> top_x"
  shows "\<exists>fs. get_top_x_files_report self p b top_x = Inr (file_header @ concat (map (file_row p b) fs))
      \<and> int (length fs) \<le> top_x
      \<and> length fs = min (nat top_x) (length files)
      \<and> set fs \<subseteq> set files
      \<and> (int (length files) \<le> top_x \<longrightarrow> fs = files)"
proof (intro exI conjI impI)
  let ?fs = "take (nat top_x) files"
  from assms(2) have slice: "py_slice_to files top_x = ?fs"
    by (simp add: py_slice_to_def)
  show "get_top_x_files_report self p b top_x = Inr (file_header @ concat (map (file_row p b) ?fs))"
    using top_x_report [OF assms(1), of top_x] slice by simp
  show "int (length ?fs) \<le> top_x" using assms(2) by simp
  show "length ?fs = min (nat top_x) (length files)" by simp
  show "set ?fs \<subseteq> set files" by (rule set_take_subset)
  show "?fs = files" if "int (length files) \<le> top_x"
    using that by simp
qed

theorem top_files_at_most_top_x_witness:
  "get_file_sizes (client \<lparr>client = scenario_facade\<rparr>) ''A'' ''main'' =
     Inr [\<lparr>number_of_lines = PyStr ''80'', identifier = ''x.py''\<rparr>,
          \<lparr>number_of_lines = PyStr ''60'', identifier = ''y.py''\<rparr>,
          \<lparr>number_of_lines = PyStr ''10'', identifier = ''z.py''\<rparr>]
   \<and> (\<exists>fs. get_top_x_files_report \<lparr>client = scenario_facade\<rparr> ''A'' ''main'' 2
              = Inr (file_header @ concat (map (file_row ''A'' ''main'') fs))
         \<and> length fs = 2)
   \<and> get_top_x_files_report \<lparr>client = scenario_facade\<rparr> ''A'' ''main'' 2 =
       Inr (''Project, Branch, Path, Number of lines of code'' @ [CHR 0x0A]
          @ ''A, main, x.py, 80'' @ [CHR 0x0A] @ ''A, main, y.py, 60'' @ [CHR 0x0A])
   \<and> get_top_x_files_report \<lparr>client = scenario_facade\<rparr> ''A'' ''main'' 5 =
       Inr (''Project, Branch, Path, Number of lines of code'' @ [CHR 0x0A]
          @ ''A, main, x.py, 80'' @ [CHR 0x0A] @ ''A, main, y.py, 60'' @ [CHR 0x0A]
          @ ''A, main, z.py, 10'' @ [CHR 0x0A])"
proof -
  have two: "(0::int) \<le> 2" by simp
  from top_files_at_most_top_x [OF scenario_files two]
  have "\<exists>fs. get_top_x_files_report \<lparr>client = scenario_facade\<rparr> ''A'' ''main'' 2
              = Inr (file_header @ concat (map (file_row ''A'' ''main'') fs))
         \<and> length fs = 2"
    by auto
  moreover have "get_top_x_files_report \<lparr>client = scenario_facade\<rparr> ''A'' ''main'' 2 =
       Inr (''Project, Branch, Path, Number of lines of code'' @ [CHR 0x0A]
          @ ''A, main, x.py, 80'' @ [CHR 0x0A] @ ''A, main, y.py, 60'' @ [CHR 0x0A])"
    by (simp add: top_x_report [OF scenario_files] py_slice_to_def file_header_def file_row_def)
  moreover have "get_top_x_files_report \<lparr>client = scenario_facade\<rparr> ''A'' ''main'' 5 =
       Inr (''Project, Branch, Path, Number of lines of code'' @ [CHR 0x0A]
          @ ''A, main, x.py, 80'' @ [CHR 0x0A] @ ''A, main, y.py, 60'' @ [CHR 0x0A]
          @ ''A, main, z.py, 10'' @ [CHR 0x0A])"
    by (simp add: top_x_report [OF scenario_files] py_slice_to_def file_header_def file_row_def)
  ultimately show ?thesis using scenario_files by (intro conjI)
qed

text \<open>
  Claim C10. Whatever the order of the files that the gateway returned, the rows of
  \<open>get_top_x_files_report\<close> are the rows of the first top_x of them, in the same order,
  for a top_x that is not negative; for any top_x they are the rows of an initial piece of
  the sequence. Nothing is sorted again, filtered or moved.
\<close>

theorem top_files_are_first_entries:
  assumes "get_file_sizes (client self) p b = Inr files"
  shows "(0 \<le> top_x \<longrightarrow> get_top_x_files_report self p b top_x =
            Inr (file_header @ concat (map (file_row p b) (take (nat top_x) files))))
      \<and> (\<exists>k. get_top_x_files_report self p b top_x =
            Inr (file_header @ concat (map (file_row p b) (take k files))))"
proof (intro conjI impI)
  assume "0 \<le> top_x"
  then show "get_top_x_files_report self p b top_x =
            Inr (file_header @ concat (map (file_row p b) (take (nat top_x) files)))"
    by (simp add: top_x_report [OF assms] py_slice_to_def)
next
  show "\<exists>k. get_top_x_files_report self p b top_x =
            Inr (file_header @ concat (map (file_row p b) (take k files)))"
  proof (cases "0 \<le> top_x")
    case True
    then have "get_top_x_files_report self p b top_x =
            Inr (file_header @ concat (map (file_row p b) (take (nat top_x) files)))"
      by (simp add: top_x_report [OF assms] py_slice_to_def)
    then show ?thesis ..
  next
    case False
    then have "get_top_x_files_report self p b top_x =
            Inr (file_header @ concat (map (file_row p b) (take (length files - nat (- top_x)) files)))"
      by (simp add: top_x_report [OF assms] py_slice_to_def)
    then show ?thesis ..
  qed
qed

theorem top_files_are_first_entries_witness:
  "get_file_sizes (client \<lparr>client = unsorted_facade\<rparr>) ''A'' ''main'' =
     Inr [\<lparr>number_of_lines = PyStr ''10'', identifier = ''a.py''\<rparr>,
          \<lparr>number_of_lines = PyStr ''80'', identifier = ''b.py''\<rparr>,
          \<lparr>number_of_lines = PyStr ''30'', identifier = ''c.py''\<rparr>]
   \<and> get_top_x_files_report \<lparr>client = unsorted_facade\<rparr> ''A'' ''main'' 2 =
       Inr (''Project, Branch, Path, Number of lines of code'' @ [CHR 0x0A]
          @ ''A, main, a.py, 10'' @ [CHR 0x0A] @ ''A, main, b.py, 80'' @ [CHR 0x0A])"
proof -
  have files: "get_file_sizes (client \<lparr>client = unsorted_facade\<rparr>) ''A'' ''main'' =
     Inr [\<lparr>number_of_lines = PyStr ''10'', identifier = ''a.py''\<rparr>,
          \<lparr>number_of_lines = PyStr ''80'', identifier = ''b.py''\<rparr>,
          \<lparr>number_of_lines = PyStr ''30'', identifier = ''c.py''\<rparr>]"
    using unsorted_files by simp
  have "get_top_x_files_report \<lparr>client = unsorted_facade\<rparr> ''A'' ''main'' 2 =
      Inr (file_header @ concat (map (file_row ''A'' ''main'') (take (nat 2)
        [\<lparr>number_of_lines = PyStr ''10'', identifier = ''a.py''\<rparr>,
          \<lparr>number_of_lines = PyStr ''80'', identifier = ''b.py''\<rparr>,
          \<lparr>number_of_lines = PyStr ''30'', identifier = ''c.py''\<rparr>])))"
    using top_files_are_first_entries [OF files, of 2] by simp
  then have "get_top_x_files_report \<lparr>client = unsorted_facade\<rparr> ''A'' ''main'' 2 =
       Inr (''Project, Branch, Path, Number of lines of code'' @ [CHR 0x0A]
          @ ''A, main, a.py, 10'' @ [CHR 0x0A] @ ''A, main, b.py, 80'' @ [CHR 0x0A])"
    by (simp add: file_header_def file_row_def)
  with files show ?thesis by (intro conjI)
qed

section \<open>The order of the file listing\<close>

lemma file_results_map:
  assumes "\<forall>x \<in> set comps. c_measures x \<noteq> []"
  shows "file_results comps =
    Inr (map (\<lambda>x. \<lparr>number_of_lines = m_value (hd (c_measures x)), identifier = c_path x\<rparr>) comps)"
  using assms
proof (induction comps)
  case Nil
  show ?case by simp
next
  case (Cons x xs)
  from Cons.prems have "c_measures x \<noteq> []" by simp
  then have "first_item (c_measures x) = Inr (hd (c_measures x))"
    by (cases "c_measures x") (simp_all add: first_item_def)
  moreover from Cons have "file_results xs =
    Inr (map (\<lambda>x. \<lparr>number_of_lines = m_value (hd (c_measures x)), identifier = c_path x\<rparr>) xs)"
    by simp
  ultimately show ?case by simp
qed

text \<open>
  Claim C7, as the code has it. \<open>get_file_sizes\<close> asks the server for the leaves in
  descending order of \<open>ncloc\<close> and returns one entry for each component of the response,
  in the order of the response, with the path and the value of the first measure as
  received; it sorts nothing itself. So the returned sequence is in descending order of
  the number of lines exactly when the response is.
\<close>

theorem file_sizes_keep_server_order:
  assumes "get_component_tree_with_specified_measures (f_client c)
      \<lparr>q_component = p, q_branch = b, q_metricKeys = ''ncloc'', q_strategy = ''leaves'',
       q_metricSort = ''ncloc'', q_asc = ''false'', q_s = ''metric''\<rparr> = Inr comps"
    and "\<forall>x \<in> set comps. c_measures x \<noteq> []"
  shows "\<exists>rs. get_file_sizes c p b = Inr rs
      \<and> map identifier rs = map c_path comps
      \<and> map number_of_lines rs = map (\<lambda>x. m_value (hd (c_measures x))) comps
      \<and> (descending_by (\<lambda>r. py_int (number_of_lines r)) rs
           = descending_by (\<lambda>x. py_int (m_value (hd (c_measures x)))) comps)"
proof (intro exI conjI)
  let ?rs = "map (\<lambda>x. \<lparr>number_of_lines = m_value (hd (c_measures x)), identifier = c_path x\<rparr>) comps"
  show "get_file_sizes c p b = Inr ?rs"
    by (simp add: get_file_sizes_def assms(1) file_results_map [OF assms(2)])
  show "map identifier ?rs = map c_path comps" by simp
  show "map number_of_lines ?rs = map (\<lambda>x. m_value (hd (c_measures x))) comps" by simp
  show "descending_by (\<lambda>r. py_int (number_of_lines r)) ?rs
           = descending_by (\<lambda>x. py_int (m_value (hd (c_measures x)))) comps"
    by (simp add: descending_by_def sorted_wrt_map)
qed

lemma py_int_80: "py_int_of_str ''80'' = Inr 80"
  by code_simp

lemma py_int_60: "py_int_of_str ''60'' = Inr 60"
  by code_simp

lemma py_int_30: "py_int_of_str ''30'' = Inr 30"
  by code_simp

theorem file_sizes_keep_server_order_witness:
  "get_component_tree_with_specified_measures (f_client scenario_facade)
      \<lparr>q_component = ''A'', q_branch = ''main'', q_metricKeys = ''ncloc'', q_strategy = ''leaves'',
       q_metricSort = ''ncloc'', q_asc = ''false'', q_s = ''metric''\<rparr> =
     Inr [\<lparr>c_path = ''x.py'', c_measures = [\<lparr>m_value = PyStr ''80''\<rparr>]\<rparr>,
          \<lparr>c_path = ''y.py'', c_measures = [\<lparr>m_value = PyStr ''60''\<rparr>]\<rparr>,
          \<lparr>c_path = ''z.py'', c_measures = [\<lparr>m_value = PyStr ''10''\<rparr>]\<rparr>]
   \<and> (\<exists>rs. get_file_sizes scenario_facade ''A'' ''main'' = Inr rs
      \<and> map identifier rs = [''x.py'', ''y.py'', ''z.py'']
      \<and> map number_of_lines rs = [PyStr ''80'', PyStr ''60'', PyStr ''10'']
      \<and> descending_by (\<lambda>r. py_int (number_of_lines r)) rs)"
proof -
  let ?comps = "[\<lparr>c_path = ''x.py'', c_measures = [\<lparr>m_value = PyStr ''80''\<rparr>]\<rparr>,
          \<lparr>c_path = ''y.py'', c_measures = [\<lparr>m_value = PyStr ''60''\<rparr>]\<rparr>,
          \<lparr>c_path = ''z.py'', c_measures = [\<lparr>m_value = PyStr ''10''\<rparr>]\<rparr>]"
  have resp: "get_component_tree_with_specified_measures (f_client scenario_facade)
      \<lparr>q_component = ''A'', q_branch = ''main'', q_metricKeys = ''ncloc'', q_strategy = ''leaves'',
       q_metricSort = ''ncloc'', q_asc = ''false'', q_s = ''metric''\<rparr> = Inr ?comps"
    by (simp add: scenario_facade_def scenario_client_def SonarQubeFacade_init_def)
  have ne: "\<forall>x \<in> set ?comps. c_measures x \<noteq> []" by simp
  have desc: "descending_by (\<lambda>x. py_int (m_value (hd (c_measures x)))) ?comps"
    by (simp add: descending_by_def py_int_80 py_int_60 py_int_10)
  from file_sizes_keep_server_order [OF resp ne] desc
  have "\<exists>rs. get_file_sizes scenario_facade ''A'' ''main'' = Inr rs
      \<and> map identifier rs = [''x.py'', ''y.py'', ''z.py'']
      \<and> map number_of_lines rs = [PyStr ''80'', PyStr ''60'', PyStr ''10'']
      \<and> descending_by (\<lambda>r. py_int (number_of_lines r)) rs"
    by simp
  with resp show ?thesis by (intro conjI)
qed

text \<open>
  The claim as the specification states it, that the returned sequence is in descending
  order for every response, fails: a response in another order is returned in that order.
\<close>

theorem file_sizes_unsorted_counterexample:
  "get_file_sizes unsorted_facade ''A'' ''main'' =
     Inr [\<lparr>number_of_lines = PyStr ''10'', identifier = ''a.py''\<rparr>,
          \<lparr>number_of_lines = PyStr ''80'', identifier = ''b.py''\<rparr>,
          \<lparr>number_of_lines = PyStr ''30'', identifier = ''c.py''\<rparr>]
   \<and> \<not> descending_by (\<lambda>r. py_int (number_of_lines r))
         [\<lparr>number_of_lines = PyStr ''10'', identifier = ''a.py''\<rparr>,
          \<lparr>number_of_lines = PyStr ''80'', identifier = ''b.py''\<rparr>,
          \<lparr>number_of_lines = PyStr ''30'', identifier = ''c.py''\<rparr>]"
  by (simp add: unsorted_files descending_by_def py_int_10 py_int_80 py_int_30)

section \<open>The token\<close>

text \<open>
  Claim C3, as the code has it. A token argument that is not empty is the token of the
  facade. Otherwise the token is the value of the environment variable
  \<open>SONARQUBE_ADMIN_TOKEN\<close>. The token is resolved when the facade is constructed, the
  client is created with it, and nothing fails when neither is present: the token is then
  \<open>None\<close>, and a call of the gateway returns what the client created without a token
  returns.
\<close>

theorem token_resolution:
  "(token \<noteq> [] \<longrightarrow> f_token (SonarQubeFacade_init create env url token) = Some token)
   \<and> (token = [] \<longrightarrow> f_token (SonarQubeFacade_init create env url token) = env ''SONARQUBE_ADMIN_TOKEN'')
   \<and> f_client (SonarQubeFacade_init create env url token)
       = create url (f_token (SonarQubeFacade_init create env url token))
   \<and> (token = [] \<and> env ''SONARQUBE_ADMIN_TOKEN'' = None \<longrightarrow>
        f_token (SonarQubeFacade_init create env url token) = None
        \<and> get_project_keys (SonarQubeFacade_init create env url token)
            = and_then (search_projects (create url None)) (\<lambda>ps. Inr (map p_key ps)))"
  by (simp add: SonarQubeFacade_init_def get_token_from_environment_variables_def Let_def
      get_project_keys_def)

theorem token_resolution_witness:
  "f_token (SonarQubeFacade_init (\<lambda>url t. scenario_client) [''SONARQUBE_ADMIN_TOKEN'' \<mapsto> ''other'']
      ''https://sonar.example:9000'' ''secret'') = Some ''secret''
   \<and> f_token (SonarQubeFacade_init (\<lambda>url t. scenario_client) [''SONARQUBE_ADMIN_TOKEN'' \<mapsto> ''other'']
      ''https://sonar.example:9000'' '''') = Some ''other''
   \<and> f_token (SonarQubeFacade_init (\<lambda>url t. scenario_client) Map.empty
      ''https://sonar.example:9000'' '''') = None
   \<and> get_project_keys (SonarQubeFacade_init (\<lambda>url t. scenario_client) Map.empty
      ''https://sonar.example:9000'' '''') = Inr [''A'', ''B'']"
proof -
  have "search_projects scenario_client = Inr [\<lparr>p_key = ''A''\<rparr>, \<lparr>p_key = ''B''\<rparr>]"
    by (simp add: scenario_client_def)
  then show ?thesis
    using token_resolution [of "''secret''" "\<lambda>url t. scenario_client"
        "[''SONARQUBE_ADMIN_TOKEN'' \<mapsto> ''other'']" "''https://sonar.example:9000''"]
      token_resolution [of "''''" "\<lambda>url t. scenario_client"
        "[''SONARQUBE_ADMIN_TOKEN'' \<mapsto> ''other'']" "''https://sonar.example:9000''"]
      token_resolution [of "''''" "\<lambda>url t. scenario_client"
        Map.empty "''https://sonar.example:9000''"]
    by simp
qed

text \<open>
  The claim as the specification states it, that without a token the first call of the
  gateway fails with a configuration error, fails: with no token argument and no
  environment variable the facade is constructed with the token \<open>None\<close>, and the
  call returns the projects that the client returns.
\<close>

theorem no_token_no_error_counterexample:
  "f_token anonymous_facade = None
   \<and> get_project_keys anonymous_facade = Inr [''A'', ''B'']"
  by (simp add: anonymous_facade_def SonarQubeFacade_init_def
      get_token_from_environment_variables_def get_project_keys_def scenario_client_def)

end
